theory Spec2Isabelle
  imports Main
begin

section \<open>Comp.js: the component tree of \<^verbatim>\<open>src/comp/index.ts\<close>\<close>

text \<open>
  The classes \<^verbatim>\<open>Literal\<close>, \<^verbatim>\<open>Comp\<close>, \<^verbatim>\<open>SystemComp\<close>, \<^verbatim>\<open>UserComp\<close>,
  \<^verbatim>\<open>BuiltinComp\<close>, \<^verbatim>\<open>If\<close>, \<^verbatim>\<open>For\<close>, \<^verbatim>\<open>RouterPage\<close>, \<^verbatim>\<open>RouterOutlet\<close> and
  \<^verbatim>\<open>RouterLink\<close> are embedded as functions on immutable values: a method that mutates
  \<^verbatim>\<open>this\<close> takes the node and returns the updated node, a method that can throw returns
  a sum whose left injection is the error. \<^verbatim>\<open>Select\<close>, \<^verbatim>\<open>Test\<close> and \<^verbatim>\<open>Rating\<close>
  build fresh nodes (fresh random identities) inside \<^verbatim>\<open>init\<close> and are not embedded.
  A method keeps its name without the leading underscore (\<open>toHtml\<close>, \<open>generateId\<close>,
  \<open>doRegistrations\<close>); \<^verbatim>\<open>init\<close> and \<^verbatim>\<open>_element\<close> carry the name of their class, and the
  field \<^verbatim>\<open>id\<close> is \<open>comp_id\<close>.
\<close>

subsection \<open>Data\<close>

datatype TagRenderMode = normal | selfClosing | startTag

datatype error = TypeError | SyntaxError

text \<open>
  \<^verbatim>\<open>attributes: any\<close> is an object read through \<^verbatim>\<open>Object.keys\<close> and indexing. It is
  an association list in the order in which \<^verbatim>\<open>Object.keys\<close> enumerates the keys, which
  is the insertion order for keys that are not array indices. A value is \<^verbatim>\<open>undefined\<close>,
  \<^verbatim>\<open>null\<close>, or anything else, kept as the string the template literal turns it into.
\<close>

datatype attr_value = Undefined | Null | Str string

type_synonym attrs = "(string \<times> attr_value) list"

text \<open>\<^verbatim>\<open>IClassNames = string | string[] | { [key: string]: boolean }\<close>\<close>

datatype IClassNames =
    ClassString string
  | ClassArray "string list"
  | ClassMap "(string \<times> bool) list"

text \<open>An element of \<^verbatim>\<open>...children: any[]\<close>: a primitive string or an object.\<close>

datatype 'c arg = Text string | Node 'c

text \<open>
  An entry of \<^verbatim>\<open>registrations\<close>. The listener is a callback; only its identity matters
  here, so it is a number naming the function object.
\<close>

record registration =
  type_r :: string
  listener :: nat
  useCapture :: bool

text \<open>
  \<^verbatim>\<open>IComp\<close> has two implementations. A field that no constructor or \<^verbatim>\<open>init\<close> assigns
  (\<^verbatim>\<open>content\<close>, \<^verbatim>\<open>parent\<close>, \<^verbatim>\<open>renderMode\<close>) is an option, \<open>None\<close> being
  \<^verbatim>\<open>undefined\<close>, and so is \<^verbatim>\<open>children\<close>, which \<^verbatim>\<open>appendChild\<close> tests. A value cannot
  contain the object it hangs under, so the back-reference \<^verbatim>\<open>parent\<close> holds the \<^verbatim>\<open>id\<close> of
  the node it points to.

  The class of a node fixes the type \<^verbatim>\<open>T\<close> of its \<^verbatim>\<open>options\<close>; the constructor of the
  options value therefore also tells the class, and \<^verbatim>\<open>init\<close> is dispatched on it. The
  options of the generic classes \<^verbatim>\<open>Comp<T>\<close>, \<^verbatim>\<open>UserComp<T>\<close> and \<^verbatim>\<open>BuiltinComp<T>\<close>,
  which their \<^verbatim>\<open>init\<close> never reads, are a list of named fields.
\<close>

datatype 't icomp =
    Literal (lit_parent: "string option") (literal: string)
  | CompNode "'t comp"
and 't comp =
    Comp (comp_id: string) (options: "'t options") (tagName: string) (attributes: attrs)
      (classNames: "string list") (children: "'t icomp list option") (content: "string option")
      (parent: "string option") (registrations: "registration list")
      (renderMode: "TagRenderMode option")
and 't options =
    CompOptions "(string \<times> string) list"
  | UserCompOptions "(string \<times> string) list"
  | BuiltinCompOptions "(string \<times> string) list"
  | HtmlOptions (o_tagName: string) (o_attributes: attrs) (o_classNames: IClassNames)
      (o_children: "'t icomp arg list") (o_renderMode: "TagRenderMode option")
  | IfOptions (o_if: bool) (o_then: "'t icomp") (o_else: "'t icomp")
  | ForOptions (o_data: "'t list") (o_mapper: "'t \<Rightarrow> 't icomp")
  | RouterPageOptions (o_params: "string list")
  | RouterOutletOptions (o_routes: "(string \<times> 't icomp) list")
  | RouterLinkOptions (o_href: string)


text \<open>Assignments to one field of \<^verbatim>\<open>this\<close>.\<close>

definition set_options :: "'t options \<Rightarrow> 't comp \<Rightarrow> 't comp" where
  "set_options v c = Comp (comp_id c) v (tagName c) (attributes c) (classNames c) (children c)
     (content c) (parent c) (registrations c) (renderMode c)"

definition set_tagName :: "string \<Rightarrow> 't comp \<Rightarrow> 't comp" where
  "set_tagName v c = Comp (comp_id c) (options c) v (attributes c) (classNames c) (children c)
     (content c) (parent c) (registrations c) (renderMode c)"

definition set_attributes :: "attrs \<Rightarrow> 't comp \<Rightarrow> 't comp" where
  "set_attributes v c = Comp (comp_id c) (options c) (tagName c) v (classNames c) (children c)
     (content c) (parent c) (registrations c) (renderMode c)"

definition set_classNames :: "string list \<Rightarrow> 't comp \<Rightarrow> 't comp" where
  "set_classNames v c = Comp (comp_id c) (options c) (tagName c) (attributes c) v (children c)
     (content c) (parent c) (registrations c) (renderMode c)"

definition set_children :: "'t icomp list option \<Rightarrow> 't comp \<Rightarrow> 't comp" where
  "set_children v c = Comp (comp_id c) (options c) (tagName c) (attributes c) (classNames c) v
     (content c) (parent c) (registrations c) (renderMode c)"

definition set_content :: "string option \<Rightarrow> 't comp \<Rightarrow> 't comp" where
  "set_content v c = Comp (comp_id c) (options c) (tagName c) (attributes c) (classNames c)
     (children c) v (parent c) (registrations c) (renderMode c)"

definition set_registrations :: "registration list \<Rightarrow> 't comp \<Rightarrow> 't comp" where
  "set_registrations v c = Comp (comp_id c) (options c) (tagName c) (attributes c) (classNames c)
     (children c) (content c) (parent c) v (renderMode c)"

definition set_renderMode :: "TagRenderMode option \<Rightarrow> 't comp \<Rightarrow> 't comp" where
  "set_renderMode v c = Comp (comp_id c) (options c) (tagName c) (attributes c) (classNames c)
     (children c) (content c) (parent c) (registrations c) v"

text \<open>\<^verbatim>\<open>child.parent = this\<close>, for a child of either class.\<close>

fun set_parent :: "string option \<Rightarrow> 't icomp \<Rightarrow> 't icomp" where
  "set_parent v (Literal p l) = Literal v l"
| "set_parent v (CompNode c) = CompNode (Comp (comp_id c) (options c) (tagName c) (attributes c)
     (classNames c) (children c) (content c) v (registrations c) (renderMode c))"

fun parent_of :: "'t icomp \<Rightarrow> string option" where
  "parent_of (Literal p l) = p"
| "parent_of (CompNode c) = parent c"

subsection \<open>Strings and objects of the host language\<close>

text \<open>\<^verbatim>\<open>xs.join(sep)\<close> on an array of strings.\<close>

fun join :: "string \<Rightarrow> string list \<Rightarrow> string" where
  "join sep [] = []"
| "join sep [x] = x"
| "join sep (x # y # ys) = x @ sep @ join sep (y # ys)"

text \<open>
  \<^verbatim>\<open>s.split(' ')\<close>: the pieces between the spaces. The result is never empty: the empty
  string splits into one empty piece.
\<close>

fun split :: "string \<Rightarrow> string list" where
  "split [] = [[]]"
| "split (c # cs) =
     (if c = CHR '' '' then [] # split cs
      else (case split cs of w # ws \<Rightarrow> (c # w) # ws | [] \<Rightarrow> [[c]]))"

text \<open>\<^verbatim>\<open>obj[key]\<close>: the value of an own property, \<^verbatim>\<open>undefined\<close> when there is none.\<close>

definition get :: "attrs \<Rightarrow> string \<Rightarrow> attr_value" where
  "get obj key = (case map_of obj key of None \<Rightarrow> Undefined | Some v \<Rightarrow> v)"

text \<open>
  \<^verbatim>\<open>obj[key] = v\<close>: an existing key keeps its place, a new key goes last.
\<close>

fun put :: "('k \<times> 'v) list \<Rightarrow> 'k \<Rightarrow> 'v \<Rightarrow> ('k \<times> 'v) list" where
  "put [] key v = [(key, v)]"
| "put ((k, w) # obj) key v = (if k = key then (k, v) # obj else (k, w) # put obj key v)"

text \<open>What a template literal writes for a value.\<close>

fun toString :: "attr_value \<Rightarrow> string" where
  "toString Undefined = ''undefined''"
| "toString Null = ''null''"
| "toString (Str s) = s"

text \<open>The first error of a sequence of results, or all the values.\<close>

fun collect :: "(error + 'a) list \<Rightarrow> error + 'a list" where
  "collect [] = Inr []"
| "collect (Inl e # rs) = Inl e"
| "collect (Inr x # rs) = (case collect rs of Inl e \<Rightarrow> Inl e | Inr xs \<Rightarrow> Inr (x # xs))"

subsection \<open>Serialization\<close>

text \<open>
  The local function \<^verbatim>\<open>_attr\<close> of \<^verbatim>\<open>Comp._toHtml\<close>:
  \<^verbatim>\<open>Object.keys(attr).filter(key => attr[key] !== undefined)
    .map(key => attr[key] !== null ? `${key}="${attr[key]}"` : key).join(' ')\<close>
\<close>

definition attr :: "attrs \<Rightarrow> string" where
  \<open>attr a =
     join '' ''
       (map (\<lambda>key. if get a key \<noteq> Null then key @ ''="'' @ toString (get a key) @ ''"'' else key)
         (filter (\<lambda>key. get a key \<noteq> Undefined) (map fst a)))\<close>

text \<open>
  \<^verbatim>\<open>Literal._toHtml\<close> and \<^verbatim>\<open>Comp._toHtml\<close>. \<^verbatim>\<open>this.content || ...\<close> takes the content
  when it is neither \<^verbatim>\<open>undefined\<close> nor the empty string; otherwise \<^verbatim>\<open>this.children.map\<close>
  is evaluated, which throws a TypeError on \<^verbatim>\<open>undefined\<close>.
\<close>

fun toHtml :: "'t icomp \<Rightarrow> error + string" where
  \<open>toHtml (Literal p l) = Inr l\<close>
| \<open>toHtml (CompNode (Comp i opts tag a cls ch co p regs rm)) =
     (if rm = Some selfClosing then
        Inr (''<'' @ tag @ '' comp-id="'' @ i @ ''" class="'' @ join '' '' cls @ ''" '' @ attr a @ '' />'')
      else if rm = Some startTag then
        Inr (''<'' @ tag @ ''>'')
      else
        (case (if co \<noteq> None \<and> co \<noteq> Some [] then Inr (the co)
               else (case ch of
                       None \<Rightarrow> Inl TypeError
                     | Some cs \<Rightarrow>
                         (case collect (map toHtml cs) of
                            Inl e \<Rightarrow> Inl e
                          | Inr hs \<Rightarrow> Inr (concat hs)))) of
           Inl e \<Rightarrow> Inl e
         | Inr inner \<Rightarrow>
             Inr (''<'' @ tag @ '' comp-id="'' @ i @ ''" class="'' @ join '' '' cls @ ''" '' @ attr a
                  @ ''>'' @ inner @ ''</'' @ tag @ ''>'')))\<close>

subsection \<open>Composition and initialization\<close>

text \<open>
  \<^verbatim>\<open>_generateId\<close>. The argument \<open>rnd\<close> gives the successive values of
  \<^verbatim>\<open>Math.floor(Math.random() * 62)\<close>; indexing the alphabet out of range gives
  \<^verbatim>\<open>undefined\<close>, which \<^verbatim>\<open>join('')\<close> writes as nothing.
\<close>

definition base62Chars :: string where
  "base62Chars = ''0123456789ABCDEFGHIJKLMNOPQRSTUVWXYZabcdefghijklmnopqrstuvwxyz''"

definition generateId :: "nat \<Rightarrow> (nat \<Rightarrow> nat) \<Rightarrow> string" where
  "generateId len rnd =
     concat (map (\<lambda>i. if rnd i < length base62Chars then [base62Chars ! rnd i] else []) [0..<len])"

text \<open>\<^verbatim>\<open>Comp.appendChild\<close>\<close>

definition appendChild :: "'t comp \<Rightarrow> 't icomp \<Rightarrow> 't comp" where
  "appendChild this child =
     set_children
       (Some ((case children this of None \<Rightarrow> [] | Some cs \<Rightarrow> cs)
              @ [set_parent (Some (comp_id this)) child]))
       this"

text \<open>The arguments when all of them are objects.\<close>

fun nodes_of :: "'c arg list \<Rightarrow> 'c list option" where
  "nodes_of [] = Some []"
| "nodes_of (Text s # as) = None"
| "nodes_of (Node n # as) = (case nodes_of as of None \<Rightarrow> None | Some ns \<Rightarrow> Some (n # ns))"

text \<open>
  \<^verbatim>\<open>Comp.compose\<close>. \<open>classList\<close> is the value that its first \<^verbatim>\<open>if\<close> assigns to
  \<^verbatim>\<open>this.classNames\<close>: a string is split at the spaces, an array is taken as it is, of
  any other object the keys with a true value are taken. In the second branch \<^verbatim>\<open>child.parent = this\<close> runs on every
  argument; the module is strict code, where the assignment to a property of a primitive
  string throws a TypeError.
\<close>

definition classList :: "IClassNames \<Rightarrow> string list" where
  "classList classNames' =
     (case classNames' of
        ClassString s \<Rightarrow> split s
      | ClassArray xs \<Rightarrow> xs
      | ClassMap m \<Rightarrow> filter (\<lambda>key. map_of m key = Some True) (map fst m))"

definition compose ::
  "'t comp \<Rightarrow> string \<Rightarrow> attrs \<Rightarrow> IClassNames \<Rightarrow> 't icomp arg list \<Rightarrow> error + 't comp" where
  "compose this tagName' attributes' classNames' children' =
     (let c = set_tagName tagName' this;
          c = set_attributes attributes' c;
          c = set_classNames (classList classNames') c
      in case children' of
           [Text s] \<Rightarrow> Inr (set_content (Some s) c)
         | _ \<Rightarrow>
           (case nodes_of children' of
              None \<Rightarrow> Inl TypeError
            | Some ns \<Rightarrow> Inr (set_children (Some (map (set_parent (Some (comp_id this))) ns)) c)))"

text \<open>\<^verbatim>\<open>Comp.init\<close>, the base reset.\<close>

definition Comp_init :: "'t comp \<Rightarrow> 't comp" where
  "Comp_init this =
     set_registrations []
       (set_children (Some [])
         (set_classNames [] (set_attributes [] (set_tagName ''div'' this))))"

text \<open>
  \<^verbatim>\<open>SystemComp.init\<close>. \<^verbatim>\<open>TagRenderMode.normal\<close> is the number 0, so
  \<^verbatim>\<open>this.options.renderMode && (...)\<close> assigns for \<^verbatim>\<open>selfClosing\<close> and
  \<^verbatim>\<open>startTag\<close> only.
\<close>

definition SystemComp_init :: "'t comp \<Rightarrow> error + 't comp" where
  "SystemComp_init this =
     (case compose (Comp_init this) (o_tagName (options this)) (o_attributes (options this))
             (o_classNames (options this)) (o_children (options this)) of
        Inl e \<Rightarrow> Inl e
      | Inr c \<Rightarrow>
          (case o_renderMode (options this) of
             None \<Rightarrow> Inr c
           | Some normal \<Rightarrow> Inr c
           | Some m \<Rightarrow> Inr (set_renderMode (Some m) c)))"

text \<open>\<^verbatim>\<open>UserComp.init\<close> and \<^verbatim>\<open>BuiltinComp.init\<close>\<close>

definition UserComp_init :: "'t comp \<Rightarrow> 't comp" where
  "UserComp_init this = set_renderMode (Some normal) (set_tagName ''div'' (Comp_init this))"

definition BuiltinComp_init :: "'t comp \<Rightarrow> 't comp" where
  "BuiltinComp_init this = set_renderMode (Some normal) (set_tagName ''div'' (Comp_init this))"

text \<open>\<^verbatim>\<open>this.children.push(x)\<close>, a TypeError when \<^verbatim>\<open>children\<close> is \<^verbatim>\<open>undefined\<close>.\<close>

definition push_child :: "'t icomp \<Rightarrow> 't comp \<Rightarrow> error + 't comp" where
  "push_child x c =
     (case children c of
        None \<Rightarrow> Inl TypeError
      | Some cs \<Rightarrow> Inr (set_children (Some (cs @ [x])) c))"

fun push_children :: "'t icomp list \<Rightarrow> 't comp \<Rightarrow> error + 't comp" where
  "push_children [] c = Inr c"
| "push_children (x # xs) c =
     (case push_child x c of Inl e \<Rightarrow> Inl e | Inr c' \<Rightarrow> push_children xs c')"

text \<open>\<^verbatim>\<open>this.attributes[key] = null\<close>\<close>

definition mark :: "string \<Rightarrow> 't comp \<Rightarrow> 't comp" where
  "mark key c = set_attributes (put (attributes c) key Null) c"

text \<open>\<^verbatim>\<open>If.init\<close>, \<^verbatim>\<open>For.init\<close> and the three router classes.\<close>

definition If_init :: "'t comp \<Rightarrow> error + 't comp" where
  "If_init this =
     push_child (if o_if (options this) then o_then (options this) else o_else (options this))
       (mark ''comp-if'' (BuiltinComp_init this))"

definition For_init :: "'t comp \<Rightarrow> error + 't comp" where
  "For_init this =
     push_children (map (o_mapper (options this)) (o_data (options this)))
       (mark ''comp-for'' (BuiltinComp_init this))"

definition RouterPage_init :: "'t comp \<Rightarrow> 't comp" where
  "RouterPage_init this = mark ''comp-page'' (BuiltinComp_init this)"

definition RouterOutlet_init :: "'t comp \<Rightarrow> 't comp" where
  "RouterOutlet_init this = mark ''comp-outlet'' (BuiltinComp_init this)"

definition RouterLink_init :: "'t comp \<Rightarrow> 't comp" where
  "RouterLink_init this = mark ''comp-link'' (BuiltinComp_init this)"

text \<open>The call \<^verbatim>\<open>this.init()\<close>, dispatched on the class of the node.\<close>

definition init :: "'t comp \<Rightarrow> error + 't comp" where
  "init this =
     (case options this of
        CompOptions fs \<Rightarrow> Inr (Comp_init this)
      | UserCompOptions fs \<Rightarrow> Inr (UserComp_init this)
      | BuiltinCompOptions fs \<Rightarrow> Inr (BuiltinComp_init this)
      | HtmlOptions t a cl ch rm \<Rightarrow> SystemComp_init this
      | IfOptions b x y \<Rightarrow> If_init this
      | ForOptions d m \<Rightarrow> For_init this
      | RouterPageOptions ps \<Rightarrow> Inr (RouterPage_init this)
      | RouterOutletOptions rs \<Rightarrow> Inr (RouterOutlet_init this)
      | RouterLinkOptions h \<Rightarrow> Inr (RouterLink_init this))"

text \<open>
  The constructor of \<^verbatim>\<open>Comp\<close>: \<^verbatim>\<open>id\<close>, \<^verbatim>\<open>options\<close>, then \<^verbatim>\<open>init()\<close>. The fields
  that every \<^verbatim>\<open>init\<close> assigns first start with a placeholder.
\<close>

definition new_Comp :: "(nat \<Rightarrow> nat) \<Rightarrow> 't options \<Rightarrow> error + 't comp" where
  "new_Comp rnd opts = init (Comp (generateId 8 rnd) opts [] [] [] None None None [] None)"

text \<open>The factories \<^verbatim>\<open>element\<close> and \<^verbatim>\<open>selfClosingElement\<close>.\<close>

definition element ::
  "(nat \<Rightarrow> nat) \<Rightarrow> string \<Rightarrow> attrs \<Rightarrow> IClassNames \<Rightarrow> 't icomp arg list \<Rightarrow> error + 't comp" where
  "element rnd tagName' attributes' classNames' children' =
     new_Comp rnd (HtmlOptions tagName' attributes' classNames' children' (Some normal))"

definition selfClosingElement ::
  "(nat \<Rightarrow> nat) \<Rightarrow> string \<Rightarrow> attrs \<Rightarrow> IClassNames \<Rightarrow> error + 't comp" where
  "selfClosingElement rnd tagName' attributes' classNames' =
     new_Comp rnd (HtmlOptions tagName' attributes' classNames' [] (Some selfClosing))"


subsection \<open>The host document\<close>

text \<open>
  The code reaches the document through \<^verbatim>\<open>querySelector\<close>, \<^verbatim>\<open>innerHTML\<close>,
  \<^verbatim>\<open>insertAdjacentHTML\<close>, \<^verbatim>\<open>remove\<close> and \<^verbatim>\<open>addEventListener\<close>. A live element is
  kept with the value of its \<^verbatim>\<open>comp-id\<close> attribute, the listeners bound to it and its
  child elements; the document is the forest inside the container that the tree is
  mounted in, and no element outside it carries a \<^verbatim>\<open>comp-id\<close>.
\<close>

datatype live = Live (marker: "string option") (listeners: "registration list") (kids: "live list")

type_synonym document = "live list"

text \<open>The first element in document order that carries the marker.\<close>

fun querySelector :: "string \<Rightarrow> live list \<Rightarrow> live option" where
  "querySelector m [] = None"
| "querySelector m (Live k ls ks # rest) =
     (if k = Some m then Some (Live k ls ks)
      else (case querySelector m ks of
              Some e \<Rightarrow> Some e
            | None \<Rightarrow> querySelector m rest))"

text \<open>That element replaced by a list of elements.\<close>

fun replace_first :: "string \<Rightarrow> (live \<Rightarrow> live list) \<Rightarrow> live list \<Rightarrow> live list" where
  "replace_first m f [] = []"
| "replace_first m f (Live k ls ks # rest) =
     (if k = Some m then f (Live k ls ks) @ rest
      else if querySelector m ks \<noteq> None then Live k ls (replace_first m f ks) # rest
      else Live k ls ks # replace_first m f rest)"

text \<open>
  \<^verbatim>\<open>addEventListener\<close>: a listener already bound with the same type and capture flag is
  not bound again.
\<close>

definition addEventListener :: "registration \<Rightarrow> live \<Rightarrow> live" where
  "addEventListener r e =
     (if r \<in> set (listeners e) then e else Live (marker e) (listeners e @ [r]) (kids e))"

text \<open>
  The elements that the host builds from the markup of a node: what \<^verbatim>\<open>_toHtml\<close> writes,
  read back. Markup written by hand, a \<^verbatim>\<open>Literal\<close> or a \<^verbatim>\<open>content\<close> string, is taken
  to hold no element with a \<^verbatim>\<open>comp-id\<close>.
\<close>

fun parsed :: "'t icomp \<Rightarrow> live list" where
  "parsed (Literal p l) = []"
| "parsed (CompNode (Comp i opts tag a cls ch co p regs rm)) =
     (if rm = Some selfClosing then [Live (Some i) [] []]
      else if rm = Some startTag then [Live None [] []]
      else [Live (Some i) []
              (if co \<noteq> None \<and> co \<noteq> Some [] then []
               else (case ch of None \<Rightarrow> [] | Some cs \<Rightarrow> concat (map parsed cs)))])"

text \<open>
  The selector \<^verbatim>\<open>[comp-id=${this.id}]\<close> has an unquoted value, which must be an
  identifier: for an identity over the alphabet of \<^verbatim>\<open>_generateId\<close> that means a leading
  letter, and \<^verbatim>\<open>querySelector\<close> throws a SyntaxError when the identity starts with a
  digit. Identities over another alphabet do not come out of the constructor; the function
  below takes none of them for an identifier.
\<close>

definition letter :: "char \<Rightarrow> bool" where
  "letter c = (c \<in> set ''ABCDEFGHIJKLMNOPQRSTUVWXYZabcdefghijklmnopqrstuvwxyz'')"

definition digit :: "char \<Rightarrow> bool" where
  "digit c = (c \<in> set ''0123456789'')"

fun css_identifier :: "string \<Rightarrow> bool" where
  "css_identifier [] = False"
| "css_identifier (c # cs) = (letter c \<and> list_all (\<lambda>d. letter d \<or> digit d) cs)"

text \<open>\<^verbatim>\<open>Comp._element\<close>\<close>

definition Comp_element :: "'t comp \<Rightarrow> document \<Rightarrow> error + live option" where
  "Comp_element this doc =
     (if css_identifier (comp_id this) then Inr (querySelector (comp_id this) doc)
      else Inl SyntaxError)"

text \<open>
  \<^verbatim>\<open>Comp._doRegistrations\<close>: each entry looks the element up again and binds the
  listener to it; \<^verbatim>\<open>null.addEventListener\<close> is a TypeError.
\<close>

fun bind_all :: "'t comp \<Rightarrow> registration list \<Rightarrow> document \<Rightarrow> error + document" where
  "bind_all this [] doc = Inr doc"
| "bind_all this (r # rs) doc =
     (case Comp_element this doc of
        Inl e \<Rightarrow> Inl e
      | Inr None \<Rightarrow> Inl TypeError
      | Inr (Some el) \<Rightarrow>
          bind_all this rs (replace_first (comp_id this) (\<lambda>el. [addEventListener r el]) doc))"

definition doRegistrations :: "'t comp \<Rightarrow> document \<Rightarrow> error + document" where
  "doRegistrations this doc = bind_all this (registrations this) doc"

text \<open>
  \<^verbatim>\<open>Comp.renderTo\<close>: the content of the container becomes the markup of the node. The
  container that the selector names is taken to exist.
\<close>

definition renderTo :: "'t comp \<Rightarrow> document \<Rightarrow> error + document" where
  "renderTo this doc =
     (case toHtml (CompNode this) of
        Inl e \<Rightarrow> Inl e
      | Inr html \<Rightarrow> doRegistrations this (parsed (CompNode this)))"

subsection \<open>Update\<close>

text \<open>
  The argument of \<^verbatim>\<open>update\<close>: the fields to overwrite, \<open>None\<close> for a field that the
  argument does not have.
\<close>

datatype 't patch =
    FieldsPatch "(string \<times> string) list"
  | HtmlPatch "string option" "attrs option" "IClassNames option" "'t icomp arg list option"
      "TagRenderMode option"
  | IfPatch "bool option" "'t icomp option" "'t icomp option"
  | ForPatch "'t list option" "('t \<Rightarrow> 't icomp) option"
  | RouterPagePatch "string list option"
  | RouterOutletPatch "(string \<times> 't icomp) list option"
  | RouterLinkPatch "string option"

definition over :: "'a \<Rightarrow> 'a option \<Rightarrow> 'a" where
  "over v w = (case w of None \<Rightarrow> v | Some x \<Rightarrow> x)"

definition assign_fields :: "(string \<times> string) list \<Rightarrow> (string \<times> string) list \<Rightarrow> (string \<times> string) list" where
  "assign_fields target source = fold (\<lambda>(k, v) obj. put obj k v) source target"

text \<open>
  \<^verbatim>\<open>Object.assign(this.options, options)\<close>. Fields that are not of the options type of
  the class are never read and are not kept.
\<close>

fun assign :: "'t options \<Rightarrow> 't patch \<Rightarrow> 't options" where
  "assign (CompOptions fs) (FieldsPatch ps) = CompOptions (assign_fields fs ps)"
| "assign (UserCompOptions fs) (FieldsPatch ps) = UserCompOptions (assign_fields fs ps)"
| "assign (BuiltinCompOptions fs) (FieldsPatch ps) = BuiltinCompOptions (assign_fields fs ps)"
| "assign (HtmlOptions t a cl ch rm) (HtmlPatch t' a' cl' ch' rm') =
     HtmlOptions (over t t') (over a a') (over cl cl') (over ch ch')
       (case rm' of None \<Rightarrow> rm | Some m \<Rightarrow> Some m)"
| "assign (IfOptions b x y) (IfPatch b' x' y') = IfOptions (over b b') (over x x') (over y y')"
| "assign (ForOptions d m) (ForPatch d' m') = ForOptions (over d d') (over m m')"
| "assign (RouterPageOptions ps) (RouterPagePatch ps') = RouterPageOptions (over ps ps')"
| "assign (RouterOutletOptions rs) (RouterOutletPatch rs') = RouterOutletOptions (over rs rs')"
| "assign (RouterLinkOptions h) (RouterLinkPatch h') = RouterLinkOptions (over h h')"
| "assign opts p = opts"

text \<open>
  \<^verbatim>\<open>Comp.update\<close>. \<^verbatim>\<open>old\<close> is the first element with the marker; when there is none,
  \<^verbatim>\<open>old.insertAdjacentHTML\<close> is a TypeError. Inserting the new markup before \<^verbatim>\<open>old\<close>
  and removing \<^verbatim>\<open>old\<close> replaces that element by the elements of the markup.
\<close>

definition update :: "'t comp \<Rightarrow> 't patch \<Rightarrow> document \<Rightarrow> error + 't comp \<times> document" where
  "update this p doc =
     (case init (set_options (assign (options this) p) this) of
        Inl e \<Rightarrow> Inl e
      | Inr c \<Rightarrow>
          (case Comp_element c doc of
             Inl e \<Rightarrow> Inl e
           | Inr None \<Rightarrow> Inl TypeError
           | Inr (Some old) \<Rightarrow>
               (case toHtml (CompNode c) of
                  Inl e \<Rightarrow> Inl e
                | Inr html \<Rightarrow>
                    (case doRegistrations c
                            (replace_first (comp_id c) (\<lambda>old. parsed (CompNode c)) doc) of
                       Inl e \<Rightarrow> Inl e
                     | Inr doc' \<Rightarrow> Inr (c, doc')))))"

text \<open>Successive calls of \<^verbatim>\<open>update\<close> on the same node.\<close>

fun updates :: "'t comp \<Rightarrow> 't patch list \<Rightarrow> document \<Rightarrow> error + 't comp \<times> document" where
  "updates this [] doc = Inr (this, doc)"
| "updates this (p # ps) doc =
     (case update this p doc of
        Inl e \<Rightarrow> Inl e
      | Inr (c, doc') \<Rightarrow> updates c ps doc')"

subsection \<open>The attribute rule, entry by entry\<close>



section \<open>Properties\<close>

lemmas setters = set_options_def set_tagName_def set_attributes_def set_classNames_def
  set_children_def set_content_def set_registrations_def set_renderMode_def

subsection \<open>Serialization\<close>

lemma toHtml_CompNode:
  \<open>toHtml (CompNode c) =
     (if renderMode c = Some selfClosing then
        Inr (''<'' @ tagName c @ '' comp-id="'' @ comp_id c @ ''" class="''
             @ join '' '' (classNames c) @ ''" '' @ attr (attributes c) @ '' />'')
      else if renderMode c = Some startTag then
        Inr (''<'' @ tagName c @ ''>'')
      else
        (case (if content c \<noteq> None \<and> content c \<noteq> Some [] then Inr (the (content c))
               else (case children c of
                       None \<Rightarrow> Inl TypeError
                     | Some cs \<Rightarrow>
                         (case collect (map toHtml cs) of
                            Inl e \<Rightarrow> Inl e
                          | Inr hs \<Rightarrow> Inr (concat hs)))) of
           Inl e \<Rightarrow> Inl e
         | Inr inner \<Rightarrow>
             Inr (''<'' @ tagName c @ '' comp-id="'' @ comp_id c @ ''" class="''
                  @ join '' '' (classNames c) @ ''" '' @ attr (attributes c)
                  @ ''>'' @ inner @ ''</'' @ tagName c @ ''>'')))\<close>
  by (cases c) (simp cong: sum.case_cong)





text \<open>
  C8. A node whose render mode is \<^verbatim>\<open>selfClosing\<close> serializes to
  \<^verbatim>\<open><tag comp-id="id" class="classes" attributes />\<close>: no inner markup and no closing
  tag, whatever \<^verbatim>\<open>content\<close> and \<^verbatim>\<open>children\<close> hold.
\<close>

theorem selfClosing_shape:
  assumes "renderMode c = Some selfClosing"
  shows \<open>toHtml (CompNode c) =
     Inr (''<'' @ tagName c @ '' comp-id="'' @ comp_id c @ ''" class="'' @ join '' '' (classNames c)
          @ ''" '' @ attr (attributes c) @ '' />'')
   \<and> toHtml (CompNode (set_content co (set_children ch c))) = toHtml (CompNode c)\<close>
  using assms by (simp add: toHtml_CompNode setters)

theorem selfClosing_shape_witness:
  \<open>renderMode (Comp ''Ab'' (CompOptions []) ''img'' [(''src'', Str ''x'')] [''a'', ''b'']
       (Some [Literal None ''y'']) (Some ''z'') None [] (Some selfClosing) :: nat comp)
     = Some selfClosing
   \<and> toHtml (CompNode (Comp ''Ab'' (CompOptions []) ''img'' [(''src'', Str ''x'')] [''a'', ''b'']
       (Some [Literal None ''y'']) (Some ''z'') None [] (Some selfClosing) :: nat comp))
     = Inr ''<img comp-id="Ab" class="a b" src="x" />''\<close>
proof -
  have m: "renderMode (Comp ''Ab'' (CompOptions []) ''img'' [(''src'', Str ''x'')] [''a'', ''b'']
       (Some [Literal None ''y'']) (Some ''z'') None [] (Some selfClosing) :: nat comp)
     = Some selfClosing"
    by simp
  from selfClosing_shape [OF m] show ?thesis
    by (simp add: attr_def get_def)
qed

text \<open>
  C3, as the code has it. \<^verbatim>\<open>this.content || ...\<close> tests the content for truth, so the
  content wins when it is a non-empty string: then a node that is neither self-closing nor
  start-tag-only serializes with that content as its inner markup, whatever \<^verbatim>\<open>children\<close>
  holds, and without an error.
\<close>

theorem content_precedence:
  assumes "content c = Some s" and "s \<noteq> []"
    and "renderMode c \<noteq> Some selfClosing" and "renderMode c \<noteq> Some startTag"
  shows \<open>toHtml (CompNode c) =
     Inr (''<'' @ tagName c @ '' comp-id="'' @ comp_id c @ ''" class="'' @ join '' '' (classNames c)
          @ ''" '' @ attr (attributes c) @ ''>'' @ s @ ''</'' @ tagName c @ ''>'')
   \<and> toHtml (CompNode (set_children ch c)) = toHtml (CompNode c)\<close>
  using assms by (simp add: toHtml_CompNode setters)

theorem content_precedence_witness:
  \<open>toHtml (CompNode (Comp ''Ab'' (CompOptions []) ''p'' [] [''a''] (Some [Literal None ''y''])
       (Some ''hi'') None [] (Some normal) :: nat comp))
     = Inr ''<p comp-id="Ab" class="a" >hi</p>''\<close>
proof -
  have \<open>toHtml (CompNode (Comp ''Ab'' (CompOptions []) ''p'' [] [''a''] (Some [Literal None ''y''])
       (Some ''hi'') None [] (Some normal) :: nat comp))
     = Inr (''<'' @ ''p'' @ '' comp-id="'' @ ''Ab'' @ ''" class="'' @ join '' '' [''a'']
          @ ''" '' @ attr [] @ ''>'' @ ''hi'' @ ''</'' @ ''p'' @ ''>'')\<close>
    using content_precedence [of "Comp ''Ab'' (CompOptions []) ''p'' [] [''a'']
       (Some [Literal None ''y'']) (Some ''hi'') None [] (Some normal) :: nat comp" "''hi''"]
    by simp
  then show ?thesis by (simp add: attr_def)
qed

text \<open>
  The claim C3 as stated fails for the empty string: \<^verbatim>\<open>element('div', {}, [], '')\<close> has
  its content set to \<^verbatim>\<open>''\<close>; after \<^verbatim>\<open>appendChild(new Literal('x'))\<close> the serialization
  emits the child.
\<close>

theorem content_precedence_counterexample:
  \<open>map_sum id (\<lambda>c. (content c, toHtml (CompNode (appendChild c (Literal None ''x'')))))
     (element (\<lambda>i. 10) ''div'' [] (ClassArray []) [Text []] :: error + nat comp)
   = Inr (Some [], Inr ''<div comp-id="AAAAAAAA" class="" >x</div>'')\<close>
  by code_simp

text \<open>
  C9. A node that is neither self-closing nor start-tag-only serializes, when the
  serialization returns, to an opening tag that carries the tag name, then the identity
  marker \<^verbatim>\<open>comp-id\<close>, then the \<^verbatim>\<open>class\<close> attribute with the space-joined class list,
  then the other attributes, followed by the inner markup (the content, or else the
  concatenated markup of the children) and the closing tag.
\<close>

theorem normal_shape:
  assumes "renderMode c \<noteq> Some selfClosing" and "renderMode c \<noteq> Some startTag"
    and "toHtml (CompNode c) = Inr html"
  shows \<open>\<exists>inner.
     html = ''<'' @ tagName c @ '' comp-id="'' @ comp_id c @ ''" class="'' @ join '' '' (classNames c)
            @ ''" '' @ attr (attributes c) @ ''>'' @ inner @ ''</'' @ tagName c @ ''>''
     \<and> (if content c \<noteq> None \<and> content c \<noteq> Some [] then content c = Some inner
        else \<exists>cs hs. children c = Some cs \<and> collect (map toHtml cs) = Inr hs \<and> inner = concat hs)\<close>
  using assms
  by (auto simp: toHtml_CompNode split: if_splits option.splits sum.splits)

theorem normal_shape_witness:
  \<open>renderMode (Comp ''Ab'' (CompOptions []) ''div'' [(''x'', Str ''1'')] [''a'', ''b'']
       (Some [Literal None ''<br>'']) None None [] (Some normal) :: nat comp) \<noteq> Some selfClosing
   \<and> toHtml (CompNode (Comp ''Ab'' (CompOptions []) ''div'' [(''x'', Str ''1'')] [''a'', ''b'']
       (Some [Literal None ''<br>'']) None None [] (Some normal) :: nat comp))
     = Inr ''<div comp-id="Ab" class="a b" x="1"><br></div>''
   \<and> (\<exists>inner. ''<div comp-id="Ab" class="a b" x="1"><br></div>''
        = ''<div comp-id="Ab" class="a b" x="1">'' @ inner @ ''</div>'')\<close>
proof -
  let ?c = "Comp ''Ab'' (CompOptions []) ''div'' [(''x'', Str ''1'')] [''a'', ''b'']
       (Some [Literal None ''<br>'']) None None [] (Some normal) :: nat comp"
  have h1: "renderMode ?c \<noteq> Some selfClosing" by simp
  have h2: "renderMode ?c \<noteq> Some startTag" by simp
  have h3: \<open>toHtml (CompNode ?c) = Inr ''<div comp-id="Ab" class="a b" x="1"><br></div>''\<close>
    by code_simp
  from normal_shape [OF h1 h2 h3] h1 h3 show ?thesis
    by (auto simp: attr_def get_def)
qed

subsection \<open>Composition\<close>

lemma set_children_same: "children c = Some cs \<Longrightarrow> set_children (Some cs) c = c"
  by (cases c) (simp add: setters)

lemma Comp_init_eq:
  "Comp_init c = Comp (comp_id c) (options c) ''div'' [] [] (Some []) (content c) (parent c) []
     (renderMode c)"
  by (simp add: Comp_init_def setters)

lemma BuiltinComp_init_eq:
  "BuiltinComp_init c = Comp (comp_id c) (options c) ''div'' [] [] (Some []) (content c) (parent c) []
     (Some normal)"
  by (simp add: BuiltinComp_init_def Comp_init_eq setters)


lemma push_children_eq:
  "children c = Some cs \<Longrightarrow> push_children xs c = Inr (set_children (Some (cs @ xs)) c)"
proof (induction xs arbitrary: c cs)
  case Nil
  then show ?case by (simp add: set_children_same)
next
  case (Cons x xs)
  have "children (set_children (Some (cs @ [x])) c) = Some (cs @ [x])"
    by (simp add: setters)
  from Cons.IH [OF this] Cons.prems show ?case
    by (simp add: push_child_def setters)
qed

lemma For_init_eq:
  "For_init c = Inr (Comp (comp_id c) (options c) ''div'' [(''comp-for'', Null)] []
     (Some (map (o_mapper (options c)) (o_data (options c)))) (content c) (parent c) []
     (Some normal))"
  unfolding For_init_def
  by (subst push_children_eq [where cs = "[]"])
     (simp_all add: mark_def BuiltinComp_init_eq setters)



lemma nodes_of_single_Text [simp]: "nodes_of [Text s] = None"
  by simp

lemma compose_Text:
  "compose c t a cl [Text s] =
     Inr (Comp (comp_id c) (options c) t a (classList cl) (children c) (Some s) (parent c)
       (registrations c) (renderMode c))"
  by (simp add: compose_def setters)

lemma compose_nodes:
  assumes "nodes_of ch = Some ns"
  shows "compose c t a cl ch =
     Inr (Comp (comp_id c) (options c) t a (classList cl)
       (Some (map (set_parent (Some (comp_id c))) ns)) (content c) (parent c)
       (registrations c) (renderMode c))"
proof -
  have "\<And>s. ch \<noteq> [Text s]" using assms by auto
  then show ?thesis using assms
    by (auto simp: compose_def Let_def setters split: list.split arg.split)
qed

lemma compose_TypeError:
  assumes "nodes_of ch = None" "\<And>s. ch \<noteq> [Text s]"
  shows "compose c t a cl ch = Inl TypeError"
  using assms by (auto simp: compose_def Let_def split: list.split arg.split)

lemma compose_cases:
  "compose c t a cl ch = Inr c' \<Longrightarrow>
     (\<exists>s. ch = [Text s]) \<or> (\<exists>ns. nodes_of ch = Some ns)"
  using compose_TypeError [of ch c t a cl] by (cases "nodes_of ch") auto

lemma compose_frame:
  assumes "compose c t a cl ch = Inr c'"
  shows "comp_id c' = comp_id c \<and> options c' = options c \<and> parent c' = parent c
    \<and> registrations c' = registrations c \<and> renderMode c' = renderMode c
    \<and> tagName c' = t \<and> attributes c' = a \<and> classNames c' = classList cl"
  using compose_cases [OF assms] assms by (auto simp: compose_Text compose_nodes)















text \<open>
  C7, as the code has it. When the only child argument is a string, \<^verbatim>\<open>compose\<close> sets
  \<^verbatim>\<open>content\<close> to it and leaves \<^verbatim>\<open>children\<close> as it was. Otherwise, the arguments being
  nodes, \<^verbatim>\<open>children\<close> is set to exactly that sequence of arguments, each with its
  \<^verbatim>\<open>parent\<close> set to the composed node, and \<^verbatim>\<open>content\<close> is left as it was.
\<close>

theorem compose_children:
  \<open>(\<exists>c'. compose c t a cl [Text s] = Inr c' \<and> content c' = Some s \<and> children c' = children c)
   \<and> (nodes_of ch = Some ns \<longrightarrow>
        (\<exists>c'. compose c t a cl ch = Inr c'
           \<and> children c' = Some (map (set_parent (Some (comp_id c))) ns)
           \<and> list_all (\<lambda>x. parent_of x = Some (comp_id c)) (map (set_parent (Some (comp_id c))) ns)
           \<and> content c' = content c))\<close>
proof -
  have p: "\<And>x :: 'a icomp. parent_of (set_parent (Some (comp_id c)) x) = Some (comp_id c)"
    subgoal for x by (cases x) simp_all
    done
  show ?thesis
    by (auto simp: compose_Text compose_nodes list_all_iff p)
qed

theorem compose_children_witness:
  \<open>nodes_of [Node (Literal None ''x''), Node (CompNode (Comp ''Cd'' (CompOptions []) ''div'' []
       [] (Some []) None None [] None))]
     = Some [Literal None ''x'', CompNode (Comp ''Cd'' (CompOptions []) ''div'' [] [] (Some [])
         None None [] None :: nat comp)]
   \<and> map_sum id children
       (compose (Comp ''Ab'' (CompOptions []) ''div'' [] [] None None None [] None :: nat comp)
          ''p'' [] (ClassArray [])
          [Node (Literal None ''x''), Node (CompNode (Comp ''Cd'' (CompOptions []) ''div'' []
             [] (Some []) None None [] None))])
     = Inr (Some [Literal (Some ''Ab'') ''x'', CompNode (Comp ''Cd'' (CompOptions []) ''div'' []
         [] (Some []) None (Some ''Ab'') [] None)])\<close>
proof -
  let ?c = "Comp ''Ab'' (CompOptions []) ''div'' [] [] None None None [] None :: nat comp"
  let ?x = "Literal None ''x'' :: nat icomp"
  let ?y = "CompNode (Comp ''Cd'' (CompOptions []) ''div'' [] [] (Some []) None None [] None)
    :: nat icomp"
  have h: "nodes_of [Node ?x, Node ?y] = Some [?x, ?y]" by simp
  from compose_children [of ?c "''p''" "[]" "ClassArray []" "[]" "[Node ?x, Node ?y]" "[?x, ?y]"] h
  have "\<exists>c'. compose ?c ''p'' [] (ClassArray []) [Node ?x, Node ?y] = Inr c'
    \<and> children c' = Some (map (set_parent (Some (comp_id ?c))) [?x, ?y])"
    by blast
  with h show ?thesis by auto
qed

text \<open>
  The claim C7 as stated fails on every constructed node: the constructor has run
  \<^verbatim>\<open>init\<close>, which sets \<^verbatim>\<open>children\<close> to the empty array, and \<^verbatim>\<open>compose\<close> with one string
  leaves it there. After \<^verbatim>\<open>element('div', {}, [], 'hi')\<close> the children are the empty
  array, not \<^verbatim>\<open>undefined\<close>.
\<close>

theorem compose_children_counterexample:
  \<open>map_sum id (\<lambda>c. (content c, children c))
     (element (\<lambda>i. 10) ''div'' [] (ClassArray []) [Text ''hi''] :: error + nat comp)
   = Inr (Some ''hi'', Some [])\<close>
  by (simp add: element_def new_Comp_def init_def SystemComp_init_def compose_Text Comp_init_eq)

subsection \<open>Initialization\<close>




lemma init_renderMode:
  assumes "init c = Inr c'"
    and "(\<exists>fs. options c = CompOptions fs)
       \<or> (\<exists>t a cl ch rm. options c = HtmlOptions t a cl ch rm \<and> (rm = None \<or> rm = Some normal))"
  shows "renderMode c' = renderMode c"
proof -
  from assms(2) consider (base) fs where "options c = CompOptions fs"
    | (html) t a cl ch rm where "options c = HtmlOptions t a cl ch rm"
        and "rm = None \<or> rm = Some normal"
    by blast
  then show ?thesis
  proof cases
    case base
    with assms(1) show ?thesis by (auto simp: init_def Comp_init_eq)
  next
    case html
    with assms(1) have "compose (Comp_init c) t a cl ch = Inr c'"
      by (auto simp: init_def SystemComp_init_def split: sum.splits)
    from compose_frame [OF this] show ?thesis by (simp add: Comp_init_eq)
  qed
qed

subsection \<open>The host document\<close>

lemma querySelector_marker: "querySelector m doc = Some e \<Longrightarrow> marker e = Some m"
  by (induction m doc rule: querySelector.induct) (auto split: if_splits option.splits)




lemma update_Inr:
  assumes "update c p doc = Inr (c', doc')"
  shows "init (set_options (assign (options c) p) c) = Inr c'
    \<and> css_identifier (comp_id c') \<and> querySelector (comp_id c') doc \<noteq> None
    \<and> (\<exists>html. toHtml (CompNode c') = Inr html)
    \<and> doRegistrations c' (replace_first (comp_id c') (\<lambda>old. parsed (CompNode c')) doc) = Inr doc'"
  using assms
  by (auto simp: update_def Comp_element_def split: sum.splits option.splits if_splits)

subsection \<open>Update\<close>













text \<open>
  C4. The claim holds for a \<^verbatim>\<open>For\<close> node, as \<open>For_updates_from_scratch\<close> below shows,
  and fails for a \<^verbatim>\<open>SystemComp\<close>, whose \<^verbatim>\<open>init\<close> only recomputes the shape from the
  options: \<^verbatim>\<open>element('div', {}, [], new Literal('x'))\<close> is mounted, then updated with
  \<^verbatim>\<open>{children: ['hello']}\<close> and with \<^verbatim>\<open>{children: [new Literal('y')]}\<close>. Its options are
  then those of \<^verbatim>\<open>element('div', {}, [], new Literal('y'))\<close>, but its markup still shows
  the content \<^verbatim>\<open>hello\<close> of the first update, where the node constructed from the final
  options shows \<^verbatim>\<open>y\<close>.
\<close>

theorem update_leaks_content:
  \<open>(case element (\<lambda>i. 10) ''div'' [] (ClassArray []) [Node (Literal None ''x'')] of
       Inl e \<Rightarrow> Inl e
     | Inr (c0 :: unit comp) \<Rightarrow>
         (case renderTo c0 [] of
            Inl e \<Rightarrow> Inl e
          | Inr d0 \<Rightarrow>
              (case updates c0 [HtmlPatch None None None (Some [Text ''hello'']) None,
                                HtmlPatch None None None (Some [Node (Literal None ''y'')]) None] d0 of
                 Inl e \<Rightarrow> Inl e
               | Inr (c2, d2) \<Rightarrow> map_sum id (\<lambda>h. (options c2, h)) (toHtml (CompNode c2)))))
    = Inr (HtmlOptions ''div'' [] (ClassArray []) [Node (Literal None ''y'')] (Some normal),
           ''<div comp-id="AAAAAAAA" class="" >hello</div>'')
   \<and> (case element (\<lambda>i. 10) ''div'' [] (ClassArray []) [Node (Literal None ''y'')] of
       Inl e \<Rightarrow> Inl e
     | Inr (c :: unit comp) \<Rightarrow> map_sum id (\<lambda>h. (options c, h)) (toHtml (CompNode c)))
    = Inr (HtmlOptions ''div'' [] (ClassArray []) [Node (Literal None ''y'')] (Some normal),
           ''<div comp-id="AAAAAAAA" class="" >y</div>'')\<close>
  by code_simp

text \<open>
  The render mode leaks in the same way: \<^verbatim>\<open>TagRenderMode.normal\<close> is 0, so
  \<^verbatim>\<open>SystemComp.init\<close> does not assign it, and a self-closing node updated with
  \<^verbatim>\<open>{renderMode: TagRenderMode.normal}\<close> stays self-closing.
\<close>

lemma update_leaks_renderMode:
  \<open>(case selfClosingElement (\<lambda>i. 10) ''input'' [] (ClassArray []) of
       Inl e \<Rightarrow> Inl e
     | Inr (c0 :: unit comp) \<Rightarrow>
         (case renderTo c0 [] of
            Inl e \<Rightarrow> Inl e
          | Inr d0 \<Rightarrow>
              (case update c0 (HtmlPatch None None None None (Some normal)) d0 of
                 Inl e \<Rightarrow> Inl e
               | Inr (c2, d2) \<Rightarrow> map_sum id (\<lambda>h. (options c2, h)) (toHtml (CompNode c2)))))
    = Inr (HtmlOptions ''input'' [] (ClassArray []) [] (Some normal),
           ''<input comp-id="AAAAAAAA" class=""  />'')
   \<and> (case element (\<lambda>i. 10) ''input'' [] (ClassArray []) [] of
       Inl e \<Rightarrow> Inl e
     | Inr (c :: unit comp) \<Rightarrow> map_sum id (\<lambda>h. (options c, h)) (toHtml (CompNode c)))
    = Inr (HtmlOptions ''input'' [] (ClassArray []) [] (Some normal),
           ''<input comp-id="AAAAAAAA" class="" ></input>'')\<close>
  by code_simp

text \<open>
  A \<^verbatim>\<open>For\<close> node after two updates is the node that the constructor builds from the
  merged options; its children are as many as the latest data.
\<close>

lemma assign_For: "\<exists>d' m'. assign (ForOptions d m) p = ForOptions d' m'"
  by (cases p) simp_all

lemma update_For:
  assumes "options c = ForOptions d m" and "update c p doc = Inr (c', doc')"
  shows "c' = Comp (comp_id c) (assign (ForOptions d m) p) ''div'' [(''comp-for'', Null)] []
     (Some (map (o_mapper (assign (ForOptions d m) p)) (o_data (assign (ForOptions d m) p))))
     (content c) (parent c) [] (Some normal)"
proof -
  obtain d' m' where a: "assign (ForOptions d m) p = ForOptions d' m'"
    using assign_For by blast
  from update_Inr [OF assms(2)] show ?thesis
    by (simp add: assms(1) a init_def For_init_eq setters)
qed

lemma For_updates_from_scratch:
  assumes "new_Comp rnd (ForOptions d m) = Inr c"
    and "update c p1 doc = Inr (c1, doc1)" and "update c1 p2 doc1 = Inr (c2, doc2)"
  shows "new_Comp rnd (assign (assign (ForOptions d m) p1) p2) = Inr c2"
    and "map_option length (children c2)
          = Some (length (o_data (assign (assign (ForOptions d m) p1) p2)))"
proof -
  obtain d1 m1 where a1: "assign (ForOptions d m) p1 = ForOptions d1 m1"
    using assign_For by blast
  obtain d2 m2 where a2: "assign (ForOptions d1 m1) p2 = ForOptions d2 m2"
    using assign_For by blast
  from assms(1) have c: "c = Comp (generateId 8 rnd) (ForOptions d m) ''div''
      [(''comp-for'', Null)] [] (Some (map m d)) None None [] (Some normal)"
    by (simp add: new_Comp_def init_def For_init_eq)
  then have o: "options c = ForOptions d m" by simp
  note u1 = update_For [OF o assms(2)]
  then have o1: "options c1 = ForOptions d1 m1" by (simp add: a1)
  note u2 = update_For [OF o1 assms(3)]
  show "new_Comp rnd (assign (assign (ForOptions d m) p1) p2) = Inr c2"
    using u2 u1 c by (simp add: a1 a2 new_Comp_def init_def For_init_eq)
  show "map_option length (children c2)
          = Some (length (o_data (assign (assign (ForOptions d m) p1) p2)))"
    using u2 by (simp add: a1 a2)
qed

end
